theory Spec2Isabelle
  imports Main "HOL-Library.AList"
begin

section \<open>Python values\<close>

text \<open>
  Exceptions that leave a modelled function are values of this type. \<open>ExternalError\<close>
  stands for whatever an external collaborator (jmbitcoin, the wallet, the blockchain
  interface) raises.
\<close>

datatype exn =
    KeyError | IndexError | ValueError | OverflowError | TypeError | ZeroDivisionError
  | AssertionError | NotImplementedError | AttributeError | HexError | ExternalError

text \<open>Python's \<open>str\<close> on integers: decimal digits, a leading minus sign.\<close>

function str_digits :: "int \<Rightarrow> string" where
  "str_digits n =
     (if n < 10 then [char_of (48 + n)]
      else str_digits (n div 10) @ [char_of (48 + n mod 10)])"
  by pat_completeness auto
termination
  by (relation "measure nat") auto

declare str_digits.simps [simp del]

definition str_int :: "int \<Rightarrow> string" where
  "str_int i = (if i < 0 then CHR ''-'' # str_digits (- i) else str_digits i)"

definition str_nat :: "nat \<Rightarrow> string" where
  "str_nat n = str_digits (int n)"

section \<open>Data model\<close>

text \<open>A deserialized transaction: \<open>txd['ins'][k]['outpoint']['hash' / 'index']\<close>,
  \<open>['script']\<close>, the optional \<open>['txinwitness']\<close>, and \<open>txd['outs'][k]['script' / 'value']\<close>.\<close>

record outpoint =
  op_hash :: string
  op_index :: nat

record txin =
  in_outpoint :: outpoint
  in_script :: string
  in_txinwitness :: "string list option"

record txout =
  out_script :: string
  out_value :: int

record tx =
  ins :: "txin list"
  outs :: "txout list"

text \<open>\<open>ins['outpoint']['hash'] + ':' + str(ins['outpoint']['index'])\<close>\<close>

definition utxo_str :: "txin \<Rightarrow> string" where
  "utxo_str i = op_hash (in_outpoint i) @ '':'' @ str_nat (op_index (in_outpoint i))"

text \<open>A wallet utxo entry \<open>{'address': ..., 'value': ...}\<close>; a dict of them keyed by the
  outpoint string is an association list in insertion order (a Python dict has distinct
  keys).\<close>

record utxo_info =
  u_address :: string
  u_value :: int

text \<open>A record returned by \<open>query_utxo_set\<close>.\<close>

record utxo_record =
  r_value :: int
  r_script :: string
  r_address :: string
  r_confirms :: int

record offer =
  oid :: int
  ordertype :: string
  minsize :: int
  maxsize :: int
  txfee :: int
  cjfee :: string
  counterparty :: string

record offerinfo =
  oi_offer :: offer
  oi_utxos :: "(string \<times> utxo_info) list"
  oi_cjaddr :: string
  oi_changeaddr :: string
  oi_amount :: int

text \<open>An amount in the schedule is an \<open>int\<close> or a \<open>float\<close>; a finite double is
  \<open>mantissa * 2 ^ exponent\<close>.\<close>

datatype pyfloat = PyFloat int int

datatype script_item = ItemInt int | ItemNone | ItemStr string

record revelation =
  cr_utxo :: string
  cr_P :: string
  cr_P2 :: string
  cr_sig :: string
  cr_e :: string

text \<open>An entry of \<open>self.outputs\<close>: \<open>{'address': ..., 'value': ...}\<close>.\<close>

record tx_output =
  o_address :: string
  o_value :: int

section \<open>External collaborators\<close>

text \<open>
  The functions of jmbitcoin, jmclient.support, the wallet, the blockchain interface and
  the configuration that the two state machines call. Their code is outside the
  modelled files; each is a parameter. \<open>None\<close> as a result means the call raises.
  Byte strings are represented by their hex encoding.
\<close>

record env =
  address_to_script :: "string \<Rightarrow> string option"
  calc_cj_fee :: "string \<Rightarrow> string \<Rightarrow> int \<Rightarrow> int option"
  query_utxo_set :: "string list \<Rightarrow> bool \<Rightarrow> utxo_record option list"
  pubkey_has_script :: "string \<Rightarrow> string \<Rightarrow> bool option"
  taker_utxo_retries :: int
  taker_utxo_age :: int
  taker_utxo_amtpercent :: int
  minimum_makers :: int
  mincjamount :: int
  DUST_THRESHOLD :: int
  BITCOIN_DUST_THRESHOLD :: int
  deserialize_revelation :: "string \<Rightarrow> revelation option"
  verify_podle :: "string \<Rightarrow> string \<Rightarrow> string \<Rightarrow> string \<Rightarrow> string \<Rightarrow> int \<Rightarrow> bool"
  oid_to_order :: "offer \<Rightarrow> int \<Rightarrow> (string \<times> utxo_info) list \<times> string \<times> string"
  get_key_from_addr :: "string \<Rightarrow> string"
  privtopub :: "string \<Rightarrow> string"
  ecdsa_sign :: "string \<Rightarrow> string \<Rightarrow> string"
  ecdsa_verify :: "string \<Rightarrow> string \<Rightarrow> string \<Rightarrow> bool option"
  validate_address :: "string \<Rightarrow> bool"
  estimate_tx_fee :: "nat \<Rightarrow> nat \<Rightarrow> int"
  shuffle_utxo_tx :: "string list \<Rightarrow> string list"
  shuffle_outputs :: "tx_output list \<Rightarrow> tx_output list"
  mktx :: "string list \<Rightarrow> tx_output list \<Rightarrow> string option"
  deserialize :: "string \<Rightarrow> tx option"
  serialize :: "tx \<Rightarrow> string"
  get_balance_by_mixdepth :: "(int \<times> int) list"
  wallet_mixdepth :: int
  get_internal_addr :: "int \<Rightarrow> string"
  b64decode_hexlify :: "string \<Rightarrow> string option"
  deserialize_script :: "string \<Rightarrow> script_item list"
  verify_tx_input ::
    "string \<Rightarrow> nat \<Rightarrow> string \<Rightarrow> string \<Rightarrow> string \<Rightarrow> string option \<Rightarrow> int option \<Rightarrow> bool"
  pubkey_to_p2pkh_script :: "string \<Rightarrow> string"
  is_segwit_native_script :: "string \<Rightarrow> bool"
  p2wpkh_script_unit :: "string \<Rightarrow> string"

section \<open>Maker: verify_unsigned_tx\<close>

text \<open>
  The loop over \<open>txd['outs']\<close>, with the two counters \<open>times_seen_cj_addr\<close> and
  \<open>times_seen_change_addr\<close>. \<open>Inl\<close> is the message of an early \<open>return (False, ...)\<close>.
\<close>

fun check_outs ::
  "string \<Rightarrow> string \<Rightarrow> int \<Rightarrow> int \<Rightarrow> txout list \<Rightarrow> nat \<Rightarrow> nat \<Rightarrow> string + (nat \<times> nat)" where
  "check_outs cjaddr_script changeaddr_script amount expected_change_value []
       times_seen_cj_addr times_seen_change_addr =
     Inr (times_seen_cj_addr, times_seen_change_addr)"
| "check_outs cjaddr_script changeaddr_script amount expected_change_value (out # rest)
       times_seen_cj_addr times_seen_change_addr =
     (if out_script out = cjaddr_script \<and> out_value out \<noteq> amount
      then Inl (''Wrong cj_amount. I expect '' @ str_int amount)
      else if out_script out = changeaddr_script \<and> out_value out \<noteq> expected_change_value
      then Inl (''wrong change, i expect '' @ str_int expected_change_value)
      else check_outs cjaddr_script changeaddr_script amount expected_change_value rest
             (if out_script out = cjaddr_script
              then times_seen_cj_addr + 1 else times_seen_cj_addr)
             (if out_script out = changeaddr_script
              then times_seen_change_addr + 1 else times_seen_change_addr))"

definition my_total_in :: "(string \<times> utxo_info) list \<Rightarrow> int" where
  "my_total_in utxos = sum_list (map (\<lambda>kv. u_value (snd kv)) utxos)"

definition verify_unsigned_tx :: "env \<Rightarrow> tx \<Rightarrow> offerinfo \<Rightarrow> exn + (bool \<times> string option)" where
  "verify_unsigned_tx e txd offerinfo =
     (let tx_utxo_set = set (map utxo_str (ins txd));
          utxos = oi_utxos offerinfo
      in case address_to_script e (oi_cjaddr offerinfo) of
           None \<Rightarrow> Inl ExternalError
         | Some cjaddr_script \<Rightarrow>
      (case address_to_script e (oi_changeaddr offerinfo) of
           None \<Rightarrow> Inl ExternalError
         | Some changeaddr_script \<Rightarrow>
      (let amount = oi_amount offerinfo;
           my_utxo_set = set (map fst utxos)
       in if \<not> my_utxo_set \<subseteq> tx_utxo_set
          then Inr (False, Some ''my utxos are not contained'')
          else
            (case calc_cj_fee e (ordertype (oi_offer offerinfo))
                    (cjfee (oi_offer offerinfo)) amount of
               None \<Rightarrow> Inl ExternalError
             | Some real_cjfee \<Rightarrow>
            (let expected_change_value =
                   my_total_in utxos - amount - txfee (oi_offer offerinfo) + real_cjfee
             in case check_outs cjaddr_script changeaddr_script amount
                       expected_change_value (outs txd) 0 0 of
                  Inl errmsg \<Rightarrow> Inr (False, Some errmsg)
                | Inr (times_seen_cj_addr, times_seen_change_addr) \<Rightarrow>
                    if times_seen_cj_addr \<noteq> 1 \<or> times_seen_change_addr \<noteq> 1
                    then Inr (False, Some (''cj or change addr not in tx outputs once, #cjaddr=''
                                 @ str_nat times_seen_cj_addr @ '', #chaddr=''
                                 @ str_nat times_seen_change_addr))
                    else Inr (True, None))))))"

section \<open>Python floats\<close>

text \<open>
  \<open>int.bit_length\<close> (on positive integers), and rounding to the nearest integer with ties to even.
\<close>

function bit_length :: "int \<Rightarrow> int" where
  "bit_length n = (if n \<le> 0 then 0 else 1 + bit_length (n div 2))"
  by pat_completeness auto
termination
  by (relation "measure nat") auto

declare bit_length.simps [simp del]

definition round_half_even :: "int \<Rightarrow> int \<Rightarrow> int" where
  "round_half_even n d =
     (let q = n div d; r = n mod d
      in if 2 * r > d \<or> (2 * r = d \<and> odd q) then q + 1 else q)"

text \<open>
  The IEEE 754 binary64 value nearest to \<open>n / d\<close> for \<open>0 \<le> n\<close> and \<open>0 < d\<close>: 53
  significant bits, ties to even, exponents from \<open>-1074\<close> (subnormal numbers keep that
  exponent); \<open>None\<close> is the overflow to infinity. The candidate exponent \<open>e0\<close> puts
  \<open>n / (d * 2 ^ e0)\<close> between \<open>2 ^ 52\<close> and \<open>2 ^ 54\<close>.
\<close>

definition float_overflow_bound :: int where
  "float_overflow_bound = 2 ^ 1024"

definition round_to_double :: "int \<Rightarrow> int \<Rightarrow> pyfloat option" where
  "round_to_double n d =
     (if n = 0 then Some (PyFloat 0 0)
      else
        let e0 = bit_length n - bit_length d - 53;
            e1 = (if 2 ^ 53 * (d * 2 ^ nat e0) \<le> n * 2 ^ nat (- e0) then e0 + 1 else e0);
            e = max e1 (- 1074);
            m = round_half_even (n * 2 ^ nat (- e)) (d * 2 ^ nat e)
        in if 0 \<le> e \<and> float_overflow_bound \<le> m * 2 ^ nat e then None
           else Some (PyFloat m e))"

text \<open>The conversion of an \<open>int\<close> operand of a float operation; it raises
  \<open>OverflowError\<close> when the integer is too large.\<close>

definition float_of_int :: "int \<Rightarrow> exn + pyfloat" where
  "float_of_int x =
     (case round_to_double \<bar>x\<bar> 1 of
        None \<Rightarrow> Inl OverflowError
      | Some (PyFloat m e) \<Rightarrow> Inr (PyFloat (if x < 0 then - m else m) e))"

text \<open>Float division and multiplication; the result \<open>None\<close> is an infinity.\<close>

fun float_div :: "pyfloat \<Rightarrow> pyfloat \<Rightarrow> exn + pyfloat option" where
  "float_div (PyFloat m1 e1) (PyFloat m2 e2) =
     (if m2 = 0 then Inl ZeroDivisionError
      else
        (case round_to_double (\<bar>m1\<bar> * 2 ^ nat (e1 - e2)) (\<bar>m2\<bar> * 2 ^ nat (e2 - e1)) of
           None \<Rightarrow> Inr None
         | Some (PyFloat m e) \<Rightarrow>
             Inr (Some (PyFloat (if (m1 < 0) \<noteq> (m2 < 0) then - m else m) e))))"

fun float_mul :: "pyfloat \<Rightarrow> pyfloat \<Rightarrow> pyfloat option" where
  "float_mul (PyFloat m1 e1) (PyFloat m2 e2) =
     (case round_to_double (\<bar>m1 * m2\<bar> * 2 ^ nat (e1 + e2)) (2 ^ nat (- (e1 + e2))) of
        None \<Rightarrow> None
      | Some (PyFloat m e) \<Rightarrow> Some (PyFloat (if (m1 < 0) \<noteq> (m2 < 0) then - m else m) e))"

text \<open>\<open>int(f)\<close> truncates toward zero and raises \<open>OverflowError\<close> on an infinity.\<close>

fun int_of_float :: "pyfloat option \<Rightarrow> exn + int" where
  "int_of_float None = Inl OverflowError"
| "int_of_float (Some (PyFloat m e)) =
     Inr (if 0 \<le> e then m * 2 ^ nat e
          else if 0 \<le> m then m div 2 ^ nat (- e)
          else - ((- m) div 2 ^ nat (- e)))"

text \<open>\<open>unhexlify\<close> accepts an even number of hexadecimal digits.\<close>

definition is_hex :: "string \<Rightarrow> bool" where
  "is_hex s = (even (length s) \<and> (\<forall>c \<in> set s. c \<in> set ''0123456789abcdefABCDEF''))"

section \<open>Maker: on_auth_received\<close>

text \<open>\<open>(False,)\<close> or \<open>(True, utxos, auth_pub, cj_addr, change_addr, btc_sig)\<close>.\<close>

datatype auth_result =
    AuthReject
  | AuthAccept "(string \<times> utxo_info) list" string string string string

text \<open>\<open>int(amount * jm_single().config.getint("POLICY", "taker_utxo_amtpercent") / 100.0)\<close>\<close>

definition reqd_amt :: "env \<Rightarrow> int \<Rightarrow> exn + int" where
  "reqd_amt e amount =
     (case float_of_int (amount * taker_utxo_amtpercent e) of
        Inl x \<Rightarrow> Inl x
      | Inr f \<Rightarrow>
          (case float_div f (PyFloat 100 0) of
             Inl x \<Rightarrow> Inl x
           | Inr q \<Rightarrow> int_of_float q))"

definition on_auth_received ::
  "env \<Rightarrow> string \<Rightarrow> offer \<Rightarrow> string \<Rightarrow> string \<Rightarrow> int \<Rightarrow> string \<Rightarrow> exn + auth_result" where
  "on_auth_received e nick offer commitment cr amount kphex =
     (let tries = taker_utxo_retries e
      in case deserialize_revelation e cr of
           None \<Rightarrow> Inr AuthReject
         | Some cr_dict \<Rightarrow>
      if \<not> verify_podle e (cr_P cr_dict) (cr_P2 cr_dict) (cr_sig cr_dict) (cr_e cr_dict)
             commitment tries
      then Inr AuthReject
      else
        (let res = query_utxo_set e [cr_utxo cr_dict] True
         in case res of
              [Some res0] \<Rightarrow>
                (let age = taker_utxo_age e
                 in if r_confirms res0 < age then Inr AuthReject
                    else
                      (case reqd_amt e amount of
                         Inl x \<Rightarrow> Inl x
                       | Inr reqd \<Rightarrow>
                      if r_value res0 < reqd then Inr AuthReject
                      else if \<not> is_hex (cr_P cr_dict) \<or> \<not> is_hex (r_script res0)
                      then Inl HexError
                      else
                        (case pubkey_has_script e (cr_P cr_dict) (r_script res0) of
                           None \<Rightarrow> Inr AuthReject
                         | Some False \<Rightarrow> Inr AuthReject
                         | Some True \<Rightarrow>
                        (case oid_to_order e offer amount of
                           (utxos, cj_addr, change_addr) \<Rightarrow>
                             (case utxos of
                                [] \<Rightarrow> Inr AuthReject
                              | kv # _ \<Rightarrow>
                                  (let auth_address = u_address (snd kv);
                                       auth_key = get_key_from_addr e auth_address;
                                       auth_pub = privtopub e auth_key;
                                       btc_sig = ecdsa_sign e kphex auth_key
                                   in Inr (AuthAccept utxos auth_pub cj_addr change_addr
                                             btc_sig)))))))
            | _ \<Rightarrow> Inr AuthReject))"

section \<open>Taker: state\<close>

datatype sched_amount = AmtInt int | AmtFloat pyfloat

text \<open>A schedule entry \<open>(mixdepth, cjamount, n_counterparties, destination, waittime)\<close>.\<close>

record schedule_entry =
  s_mixdepth :: int
  s_cjamount :: sched_amount
  s_n_counterparties :: int
  s_destination :: string
  s_waittime :: int

text \<open>One value of \<open>ioauth_data\<close>:
  \<open>(utxo_list, auth_pub, cj_addr, change_addr, btc_sig, maker_pk)\<close>.\<close>

record ioauth =
  io_utxo_list :: "string list"
  io_auth_pub :: string
  io_cj_addr :: string
  io_change_addr :: string
  io_btc_sig :: string
  io_maker_pk :: string

text \<open>Calls of the two callbacks and of the logger, in order.\<close>

datatype event = InfoCallback string string | FinishedCallback bool | Log string

text \<open>
  The attributes of a \<open>Taker\<close>. \<open>ignored_makers\<close> is kept as a set: the code rebuilds
  it with \<open>list(set(...))\<close>, whose order is unspecified, and only tests membership.
  The dict \<open>utxos\<close> has the key \<open>None\<close> for the taker's own inputs.
\<close>

record taker =
  aborted :: bool
  schedule :: "schedule_entry list"
  schedule_index :: int
  mixdepth :: int
  cjamount :: int
  mixdepthbal :: "int option"
  n_counterparties :: int
  my_cj_addr :: string
  my_change_addr :: "string option"
  outputs :: "tx_output list"
  cjfee_total :: int
  maker_txfee_contributions :: int
  txfee_default :: int
  total_txfee :: int
  latest_tx :: "tx option"
  txid :: "string option"
  ignored_makers :: "string set"
  nonrespondants :: "string list"
  utxos :: "(string option \<times> string list) list"
  input_utxos :: "(string \<times> utxo_info) list"
  orderbook :: "(string \<times> offer) list"
  maker_utxo_data :: "(string \<times> utxo_record list) list"
  utxo_tx :: "string list"
  events :: "event list"

text \<open>The values the three entry points return.\<close>

datatype taker_ret =
    RetFalse1
  | RetFalseMsg string
  | RetCommitmentFailure
  | RetInit int string string "(string \<times> offer) list"
  | RetUtxos "string list" string
  | RetBoolFalse
  | RetNone
  | RetPush "(string \<times> string) option"

text \<open>
  \<open>make_commitment\<close> returns \<open>(commitment, revelation, errmsg)\<close>, or
  \<open>(None, (priv_utxo_pairs, to, ts), errmsg)\<close>, of which \<open>initialize\<close> reads \<open>to\<close>.
\<close>

datatype commitment_result =
    Commitment string string string
  | NoCommitment "string list" string

text \<open>
  Methods of the taker that the claims do not reach: the order choice, the selection
  of the wallet inputs, the PoDLE commitment, and the final signing and broadcast. They
  are parameters that transform the state.
\<close>

record taker_hooks =
  filter_orderbook :: "taker \<Rightarrow> offer list \<Rightarrow> bool \<Rightarrow> taker \<times> (exn + bool)"
  prepare_my_bitcoin_data :: "taker \<Rightarrow> taker \<times> (exn + bool)"
  make_commitment :: "taker \<Rightarrow> taker \<times> (exn + commitment_result)"
  self_sign_and_push :: "taker \<Rightarrow> taker \<times> (exn + (string \<times> string) option)"

definition add_event :: "event \<Rightarrow> taker \<Rightarrow> taker" where
  "add_event ev t = t\<lparr>events := events t @ [ev]\<rparr>"

definition add_ignored_makers :: "string list \<Rightarrow> taker \<Rightarrow> taker" where
  "add_ignored_makers makers t = t\<lparr>ignored_makers := ignored_makers t \<union> set makers\<rparr>"

text \<open>List indexing: negative indices count from the end, out of range raises.\<close>

definition py_index :: "'a list \<Rightarrow> int \<Rightarrow> 'a option" where
  "py_index xs i =
     (let n = int (length xs); j = (if i < 0 then n + i else i)
      in if 0 \<le> j \<and> j < n then Some (xs ! nat j) else None)"

section \<open>Taker: initialize\<close>

text \<open>
  \<open>si[0] != self.schedule[self.schedule_index - 1]\<close> compares the mixdepth, an
  \<open>int\<close>, with a whole schedule entry, a list or tuple: the two are never equal.
\<close>

definition int_ne_entry :: "int \<Rightarrow> schedule_entry \<Rightarrow> bool" where
  "int_ne_entry m entry = True"

text \<open>
  Lines 166 to 181. On an exception the attribute \<open>cjamount\<close> holds the float of the
  schedule in the code; the model leaves the field as it was.
\<close>

definition set_cjamount :: "env \<Rightarrow> schedule_entry \<Rightarrow> taker \<Rightarrow> taker \<times> (exn + unit)" where
  "set_cjamount e si t =
     (case s_cjamount si of
        AmtInt a \<Rightarrow> (t\<lparr>cjamount := a\<rparr>, Inr ())
      | AmtFloat f \<Rightarrow>
          (case (if schedule_index t = 0 then Inr True
                 else (case py_index (schedule t) (schedule_index t - 1) of
                         None \<Rightarrow> Inl IndexError
                       | Some prev \<Rightarrow> Inr (int_ne_entry (s_mixdepth si) prev))) of
             Inl x \<Rightarrow> (t, Inl x)
           | Inr requery \<Rightarrow>
          (case (if requery
                 then (case map_of (get_balance_by_mixdepth e) (mixdepth t) of
                         None \<Rightarrow> Inl KeyError
                       | Some b \<Rightarrow> Inr (t\<lparr>mixdepthbal := Some b\<rparr>))
                 else Inr t) of
             Inl x \<Rightarrow> (t, Inl x)
           | Inr t1 \<Rightarrow>
          (case mixdepthbal t1 of
             None \<Rightarrow> (t1, Inl AttributeError)
           | Some bal \<Rightarrow>
          (case float_of_int bal of
             Inl x \<Rightarrow> (t1, Inl x)
           | Inr fbal \<Rightarrow>
          (case int_of_float (float_mul f fbal) of
             Inl x \<Rightarrow> (t1, Inl x)
           | Inr c \<Rightarrow>
               if c < mincjamount e
               then (add_event (Log (''Coinjoin amount too low, bringing up to: ''
                                       @ str_int (mincjamount e)))
                       (t1\<lparr>cjamount := mincjamount e\<rparr>), Inr ())
               else (t1\<lparr>cjamount := c\<rparr>, Inr ())))))))"

text \<open>Lines 186 to 191: the destination \<open>"INTERNAL"\<close>.\<close>

definition resolve_internal :: "env \<Rightarrow> taker \<Rightarrow> taker \<times> (exn + unit)" where
  "resolve_internal e t =
     (if my_cj_addr t = ''INTERNAL''
      then if wallet_mixdepth e + 1 = 0 then (t, Inl ZeroDivisionError)
           else
             (let next_mixdepth = (mixdepth t + 1) mod (wallet_mixdepth e + 1);
                  t1 = add_event (Log (''Choosing a destination from mixdepth: ''
                                         @ str_int next_mixdepth)) t;
                  t2 = t1\<lparr>my_cj_addr := get_internal_addr e next_mixdepth\<rparr>
              in (add_event (Log (''Chose destination address: '' @ my_cj_addr t2)) t2,
                  Inr ()))
      else (t, Inr ()))"

text \<open>Lines 164 to 197: the settings of the schedule entry.\<close>

definition read_schedule_entry :: "env \<Rightarrow> taker \<Rightarrow> taker \<times> (exn + unit)" where
  "read_schedule_entry e t =
     (case py_index (schedule t) (schedule_index t) of
        None \<Rightarrow> (t, Inl IndexError)
      | Some si \<Rightarrow>
          (case set_cjamount e si (t\<lparr>mixdepth := s_mixdepth si\<rparr>) of
             (t1, Inl x) \<Rightarrow> (t1, Inl x)
           | (t1, Inr u) \<Rightarrow>
          (case resolve_internal e
                  (t1\<lparr>n_counterparties := s_n_counterparties si,
                      my_cj_addr := s_destination si\<rparr>) of
             (t2, Inl x) \<Rightarrow> (t2, Inl x)
           | (t2, Inr u) \<Rightarrow>
               (t2\<lparr>outputs := [], cjfee_total := 0, maker_txfee_contributions := 0,
                   txfee_default := 5000, latest_tx := None, txid := None\<rparr>, Inr ()))))"

text \<open>Lines 199 to 227.\<close>

definition initialize_rest ::
  "taker_hooks \<Rightarrow> taker \<Rightarrow> offer list \<Rightarrow> taker \<times> (exn + taker_ret)" where
  "initialize_rest h t orderbook_arg =
     (let sweep = (cjamount t = 0)
      in case filter_orderbook h t orderbook_arg sweep of
           (t1, Inl x) \<Rightarrow> (t1, Inl x)
         | (t1, Inr False) \<Rightarrow> (t1, Inr RetFalse1)
         | (t1, Inr True) \<Rightarrow>
      (case prepare_my_bitcoin_data h
              (add_event (InfoCallback ''INFO'' ''Preparing bitcoin data..'') t1) of
           (t2, Inl x) \<Rightarrow> (t2, Inl x)
         | (t2, Inr False) \<Rightarrow> (t2, Inr RetFalse1)
         | (t2, Inr True) \<Rightarrow>
      (case make_commitment h t2 of
           (t3, Inl x) \<Rightarrow> (t3, Inl x)
         | (t3, Inr (NoCommitment to errmsg)) \<Rightarrow>
             if length to = 0
             then (add_event (InfoCallback ''ABORT'' errmsg) t3, Inr RetCommitmentFailure)
             else (add_event (InfoCallback ''INFO'' errmsg) t3, Inr RetFalse1)
         | (t3, Inr (Commitment commitment revelation errmsg)) \<Rightarrow>
             (let t4 = add_event (InfoCallback ''INFO'' errmsg) t3;
                  t5 = t4\<lparr>nonrespondants := map fst (orderbook t4)\<rparr>
              in (t5, Inr (RetInit (cjamount t5) commitment revelation (orderbook t5)))))))"

definition initialize ::
  "env \<Rightarrow> taker_hooks \<Rightarrow> taker \<Rightarrow> offer list \<Rightarrow> taker \<times> (exn + taker_ret)" where
  "initialize e h t orderbook_arg =
     (if aborted t then (t, Inr RetFalse1)
      else
        (let t1 = add_event (InfoCallback ''INFO'' ''Received offers from joinmarket pit'') t;
             t2 = t1\<lparr>schedule_index := schedule_index t1 + 1\<rparr>
         in if schedule_index t2 = int (length (schedule t2))
            then (add_event (FinishedCallback True)
                    (add_event (InfoCallback ''INFO'' ''Finished all scheduled transactions'')
                       t2),
                  Inr RetFalse1)
            else
              (case read_schedule_entry e t2 of
                 (t3, Inl x) \<Rightarrow> (t3, Inl x)
               | (t3, Inr u) \<Rightarrow> initialize_rest h t3 orderbook_arg)))"

section \<open>Taker: receive_utxos\<close>

definition auth_counterparty :: "env \<Rightarrow> string \<Rightarrow> string \<Rightarrow> string \<Rightarrow> bool" where
  "auth_counterparty e btc_sig auth_pub maker_pk =
     (case ecdsa_verify e maker_pk btc_sig auth_pub of
        None \<Rightarrow> False
      | Some ok \<Rightarrow> ok)"

text \<open>The first loop, lines 347 to 360: it fills \<open>rejected_counterparties\<close>.\<close>

definition auth_step :: "env \<Rightarrow> string \<Rightarrow> ioauth \<Rightarrow> taker \<times> string list \<Rightarrow> taker \<times> string list" where
  "auth_step e nick nickdata st =
     (let t = fst st;
          rejected_counterparties = snd st;
          rejected1 =
            (if \<not> auth_counterparty e (io_btc_sig nickdata) (io_auth_pub nickdata)
                    (io_maker_pk nickdata)
             then rejected_counterparties @ [nick] else rejected_counterparties)
      in if \<not> validate_address e (io_cj_addr nickdata) \<or>
            \<not> validate_address e (io_change_addr nickdata)
         then (add_ignored_makers [nick]
                 (add_event (Log ''Counterparty provided invalid address'') t),
               rejected1 @ [nick])
         else (t, rejected1))"

fun auth_loop ::
  "env \<Rightarrow> (string \<times> ioauth) list \<Rightarrow> taker \<times> string list \<Rightarrow> taker \<times> string list" where
  "auth_loop e [] st = st"
| "auth_loop e (kv # rest) st = auth_loop e rest (auth_step e (fst kv) (snd kv) st)"

text \<open>Lines 362 and 363: \<open>del ioauth_data[rc]\<close> raises \<open>KeyError\<close> on a missing key.\<close>

fun del_rejected :: "(string \<times> ioauth) list \<Rightarrow> string list \<Rightarrow> exn + (string \<times> ioauth) list" where
  "del_rejected ioauth_data [] = Inr ioauth_data"
| "del_rejected ioauth_data (rc # rest) =
     (if rc \<in> set (map fst ioauth_data)
      then del_rejected (AList.delete rc ioauth_data) rest
      else Inl KeyError)"

text \<open>
  Lines 384 to 397: the \<open>for ... else\<close> over \<open>utxo_data\<close>. \<open>Inr True\<close> is the
  \<open>break\<close>, \<open>Inr False\<close> the \<open>else\<close> branch; \<open>unhexlify\<close> of a script may raise, an
  \<open>EngineError\<close> of the wallet is swallowed.
\<close>

fun auth_pub_loop :: "env \<Rightarrow> string \<Rightarrow> utxo_record list \<Rightarrow> exn + bool" where
  "auth_pub_loop e auth_pub [] = Inr False"
| "auth_pub_loop e auth_pub (inp # rest) =
     (if \<not> is_hex (r_script inp) then Inl HexError
      else if pubkey_has_script e auth_pub (r_script inp) = Some True then Inr True
      else auth_pub_loop e auth_pub rest)"

definition total_input :: "utxo_record list \<Rightarrow> int" where
  "total_input utxo_data = sum_list (map r_value utxo_data)"

text \<open>The body of the second loop, lines 368 to 430, for one \<open>nick\<close>.\<close>

definition maker_step :: "env \<Rightarrow> string \<Rightarrow> ioauth \<Rightarrow> taker \<Rightarrow> taker \<times> (exn + unit)" where
  "maker_step e nick nickdata t =
     (let t1 = t\<lparr>utxos := AList.update (Some nick) (io_utxo_list nickdata) (utxos t)\<rparr>;
          utxo_data = query_utxo_set e (io_utxo_list nickdata) False
      in if None \<in> set utxo_data
         then (add_event (Log ''Disregarding this counterparty.'')
                 (t1\<lparr>utxos := AList.delete (Some nick) (utxos t1)\<rparr>), Inr ())
         else if \<not> is_hex (io_auth_pub nickdata) then (t1, Inl HexError)
         else
           (case auth_pub_loop e (io_auth_pub nickdata) (map the utxo_data) of
              Inl x \<Rightarrow> (t1, Inl x)
            | Inr False \<Rightarrow>
                (add_event (Log (''ERROR maker's ('' @ nick @ '') authorising pubkey is not ''
                                   @ ''included in the transaction!'')) t1, Inr ())
            | Inr True \<Rightarrow>
           (case map_of (orderbook t1) nick of
              None \<Rightarrow> (t1, Inl KeyError)
            | Some off \<Rightarrow>
           (case calc_cj_fee e (ordertype off) (cjfee off) (cjamount t1) of
              None \<Rightarrow> (t1, Inl ExternalError)
            | Some real_cjfee \<Rightarrow>
           (let change_amount =
                  total_input (map the utxo_data) - cjamount t1 - txfee off + real_cjfee
            in if change_amount < DUST_THRESHOLD e
               then (add_event (Log (''Invalid change, too small, nick= '' @ nick)) t1, Inr ())
               else
                 (let t2 = t1\<lparr>outputs := outputs t1 @
                                 [\<lparr>o_address = io_change_addr nickdata, o_value = change_amount\<rparr>,
                                  \<lparr>o_address = io_cj_addr nickdata, o_value = cjamount t1\<rparr>],
                               cjfee_total := cjfee_total t1 + real_cjfee,
                               maker_txfee_contributions :=
                                 maker_txfee_contributions t1 + txfee off,
                               maker_utxo_data :=
                                 AList.update nick (map the utxo_data) (maker_utxo_data t1)\<rparr>
                  in if nick \<in> set (nonrespondants t2)
                     then (t2\<lparr>nonrespondants := remove1 nick (nonrespondants t2)\<rparr>, Inr ())
                     else (add_event (Log (''Failure to remove counterparty from ''
                                             @ ''nonrespondants list: '' @ nick)) t2,
                           Inr ())))))))"

fun maker_loop :: "env \<Rightarrow> (string \<times> ioauth) list \<Rightarrow> taker \<Rightarrow> taker \<times> (exn + unit)" where
  "maker_loop e [] t = (t, Inr ())"
| "maker_loop e (kv # rest) t =
     (case maker_step e (fst kv) (snd kv) t of
        (t1, Inl x) \<Rightarrow> (t1, Inl x)
      | (t1, Inr u) \<Rightarrow> maker_loop e rest t1)"

text \<open>\<open>if self.my_change_addr:\<close> is false for \<open>None\<close> and for the empty string.\<close>

definition truthy_addr :: "string option \<Rightarrow> bool" where
  "truthy_addr a = (case a of None \<Rightarrow> False | Some s \<Rightarrow> s \<noteq> [])"

text \<open>Lines 449 to 457: the fee is estimated again only when a change address is set.\<close>

definition reestimate_fee :: "env \<Rightarrow> taker \<Rightarrow> taker" where
  "reestimate_fee e t =
     (if truthy_addr (my_change_addr t)
      then t\<lparr>total_txfee :=
               estimate_tx_fee e (length (concat (map snd (utxos t)))) (length (outputs t) + 2)\<rparr>
      else t)"

text \<open>Lines 458 to 460.\<close>

definition my_txfee :: "taker \<Rightarrow> int" where
  "my_txfee t = max (total_txfee t - maker_txfee_contributions t) 0"

definition my_change_value :: "taker \<Rightarrow> int" where
  "my_change_value t =
     my_total_in (input_utxos t) - cjamount t - cjfee_total t - my_txfee t"

text \<open>Lines 500 to 505: the placeholder script of the taker's own inputs.\<close>

definition mark_own_inputs :: "(string \<times> utxo_info) list \<Rightarrow> tx \<Rightarrow> tx" where
  "mark_own_inputs own txd =
     txd\<lparr>ins := map (\<lambda>i. if utxo_str i \<in> set (map fst own)
                           then i\<lparr>in_script := ''deadbeef''\<rparr> else i) (ins txd)\<rparr>"

text \<open>Lines 470 to 475: a change of at most the dust threshold is dropped.\<close>

definition change_dropped :: "env \<Rightarrow> taker \<Rightarrow> bool" where
  "change_dropped e t =
     (truthy_addr (my_change_addr t) \<and> my_change_value t \<le> BITCOIN_DUST_THRESHOLD e)"

definition drop_change :: "env \<Rightarrow> taker \<Rightarrow> taker" where
  "drop_change e t =
     (if change_dropped e t
      then add_event (Log (''Dynamically calculated change lower than dust: ''
                             @ str_int (my_change_value t) @ ''; dropping.''))
             (t\<lparr>my_change_addr := None\<rparr>)
      else t)"

text \<open>Lines 476 to 489, with the value of \<open>my_change_value\<close> at that point.\<close>

definition fee_breakdown :: "int \<Rightarrow> event" where
  "fee_breakdown change = Log (''fee breakdown for me changevalue='' @ str_int change)"

definition change_warning :: "int \<Rightarrow> event" where
  "change_warning change =
     Log (''WARNING CHANGE NOT BEING USED CHANGEVALUE = '' @ str_int change)"

definition add_change_output :: "int \<Rightarrow> taker \<Rightarrow> taker" where
  "add_change_output change t =
     (case my_change_addr t of
        None \<Rightarrow>
          if change \<noteq> 0 \<and> \<bar>change\<bar> \<noteq> 1
          then add_event (change_warning change) (add_event (fee_breakdown change) t)
          else add_event (fee_breakdown change) t
      | Some a \<Rightarrow>
          (add_event (fee_breakdown change) t)
            \<lparr>outputs := outputs t @ [\<lparr>o_address = a, o_value = change\<rparr>]\<rparr>)"

text \<open>Lines 496 to 507: the transaction is built from the shuffled lists.\<close>

definition send_tx :: "env \<Rightarrow> taker \<Rightarrow> taker \<times> (exn + taker_ret)" where
  "send_tx e t =
     (case mktx e (utxo_tx t) (outputs t) of
        None \<Rightarrow> (t, Inl ExternalError)
      | Some txhex \<Rightarrow>
          (case deserialize e txhex of
             None \<Rightarrow> (t, Inl ExternalError)
           | Some txd \<Rightarrow>
               (add_event (InfoCallback ''INFO'' ''Built tx, sending to counterparties.'')
                  (t\<lparr>latest_tx := Some (mark_own_inputs (input_utxos t) txd)\<rparr>),
                Inr (RetUtxos (map fst (maker_utxo_data t)) txhex))))"

text \<open>Lines 490 to 495: the inputs of all entries of \<open>self.utxos\<close>, the taker's coinjoin
  output, the two shuffles.\<close>

definition make_tx :: "env \<Rightarrow> taker \<Rightarrow> taker \<times> (exn + taker_ret)" where
  "make_tx e t =
     (if my_cj_addr t = []
      then (t\<lparr>utxo_tx := concat (map snd (utxos t))\<rparr>, Inl NotImplementedError)
      else send_tx e
             (t\<lparr>utxo_tx := shuffle_utxo_tx e (concat (map snd (utxos t))),
                outputs := shuffle_outputs e
                  (outputs t @ [\<lparr>o_address = my_cj_addr t, o_value = cjamount t\<rparr>])\<rparr>))"

text \<open>Lines 458 to 507, on the state with the fee estimated again.\<close>

definition taker_change :: "env \<Rightarrow> taker \<Rightarrow> taker \<times> (exn + taker_ret)" where
  "taker_change e t =
     (if truthy_addr (my_change_addr t) \<and> my_change_value t \<le> 0 then (t, Inl ValueError)
      else make_tx e
             (add_change_output (if change_dropped e t then 0 else my_change_value t)
                (drop_change e t)))"

text \<open>Lines 441 to 507, after the count of the makers is known to suffice.\<close>

definition build_tx :: "env \<Rightarrow> taker \<Rightarrow> taker \<times> (exn + taker_ret)" where
  "build_tx e t =
     taker_change e
       (reestimate_fee e
          ((add_event (InfoCallback ''INFO'' ''Got all parts, enough to build a tx'') t)
             \<lparr>nonrespondants := map fst (maker_utxo_data t)\<rparr>))"

definition receive_utxos ::
  "env \<Rightarrow> taker \<Rightarrow> (string \<times> ioauth) list \<Rightarrow> taker \<times> (exn + taker_ret)" where
  "receive_utxos e t ioauth_data =
     (if aborted t then (t, Inr (RetFalseMsg ''User aborted''))
      else
        (case auth_loop e ioauth_data (t, []) of
           (t1, rejected_counterparties) \<Rightarrow>
        (case del_rejected ioauth_data rejected_counterparties of
           Inl x \<Rightarrow> (t1, Inl x)
         | Inr ioauth_data1 \<Rightarrow>
        (case maker_loop e ioauth_data1 (t1\<lparr>maker_utxo_data := []\<rparr>) of
           (t2, Inl x) \<Rightarrow> (t2, Inl x)
         | (t2, Inr u) \<Rightarrow>
             if int (length (maker_utxo_data t2)) < minimum_makers e
             then (add_event (InfoCallback ''INFO'' ''Not enough counterparties, aborting.'') t2,
                   Inr (RetFalseMsg ''Not enough counterparties responded to fill, giving up''))
             else build_tx e t2))))"

section \<open>Taker: on_sig\<close>

datatype loop_ctl = Continue | Break

text \<open>An item of a signature script passes \<open>not isinstance(x, int) and x\<close> when it
  is a non-empty string.\<close>

fun item_ok :: "script_item \<Rightarrow> bool" where
  "item_ok (ItemStr s) = (s \<noteq> [])"
| "item_ok _ = False"

text \<open>Lines 595 to 627: a good signature is written into input \<open>index\<close>.\<close>

definition insert_sig ::
  "env \<Rightarrow> string \<Rightarrow> string \<Rightarrow> nat \<Rightarrow> string \<Rightarrow> utxo_record \<Rightarrow> string \<Rightarrow> string \<Rightarrow> int option \<Rightarrow>
     tx \<Rightarrow> taker \<Rightarrow> taker \<times> (exn + loop_ctl)" where
  "insert_sig e nick sig index utxo_for_checking ud ver_sig ver_pub ver_amt txd t =
     (let old = ins txd ! index;
          new = (if ver_amt \<noteq> None \<and> ver_amt \<noteq> Some 0
                 then old\<lparr>in_txinwitness := Some [ver_sig, ver_pub],
                          in_script := (if is_segwit_native_script e (r_script ud) then []
                                        else p2wpkh_script_unit e ver_pub)\<rparr>
                 else old\<lparr>in_script := sig\<rparr>);
          t1 = add_event (Log (''found good sig at index='' @ str_nat index))
                 (t\<lparr>latest_tx := Some (txd\<lparr>ins := (ins txd)[index := new]\<rparr>)\<rparr>)
      in case map_of (utxos t1) (Some nick) of
           None \<Rightarrow> (t1, Inl KeyError)
         | Some l \<Rightarrow>
             (let l1 = remove1 utxo_for_checking l;
                  t2 = t1\<lparr>utxos := AList.update (Some nick) l1 (utxos t1)\<rparr>
              in if length l1 = 0
                 then (add_event (Log (''nick = '' @ nick @ '' sent all sigs, removing from ''
                                         @ ''nonrespondant list''))
                         (t2\<lparr>nonrespondants := remove1 nick (nonrespondants t2)\<rparr>),
                       Inr Break)
                 else (t2, Inr Break)))"

text \<open>Lines 555 to 627: the loop body for the \<open>i\<close>-th unsigned input
  \<open>u = [index, utxo_for_checking]\<close>.\<close>

definition sig_step ::
  "env \<Rightarrow> string \<Rightarrow> string \<Rightarrow> string \<Rightarrow> utxo_record option list \<Rightarrow> nat \<Rightarrow> nat \<times> string \<Rightarrow>
     taker \<Rightarrow> taker \<times> (exn + loop_ctl)" where
  "sig_step e nick sig txhex utxo_data i u t =
     (if length utxo_data \<le> i then (t, Inl IndexError)
      else
        (case utxo_data ! i of
           None \<Rightarrow> (t, Inr Continue)
         | Some ud \<Rightarrow>
        (let sig_deserialized = deserialize_script e sig
         in if \<not> list_all item_ok sig_deserialized
            then (add_event (Log ''Junk signature, not attempting to verify'') t, Inr Break)
            else
              (case (case sig_deserialized of
                       [ItemStr ver_sig, ItemStr ver_pub] \<Rightarrow> Some (ver_sig, ver_pub, None)
                     | [ItemStr ver_sig, ItemStr ver_pub, ItemStr scriptCode] \<Rightarrow>
                         Some (ver_sig, ver_pub, Some scriptCode)
                     | _ \<Rightarrow> None) of
                 None \<Rightarrow>
                   (add_event (Log ''Invalid signature message - more than 3 items'') t,
                    Inr Break)
               | Some (ver_sig, ver_pub, scriptCode) \<Rightarrow>
              (let ver_amt = (if scriptCode \<noteq> None then Some (r_value ud) else None);
                   sig_good1 = verify_tx_input e txhex (fst u) (r_script ud) ver_sig ver_pub
                                 scriptCode ver_amt;
                   sig_good =
                     (if ver_amt \<noteq> None \<and> \<not> sig_good1
                      then verify_tx_input e txhex (fst u) (r_script ud) ver_sig ver_pub
                             (Some (pubkey_to_p2pkh_script e ver_pub)) ver_amt
                      else sig_good1)
               in if sig_good
                  then (case latest_tx t of
                          None \<Rightarrow> (t, Inl TypeError)
                        | Some txd \<Rightarrow>
                            insert_sig e nick sig (fst u) (snd u) ud ver_sig ver_pub ver_amt
                              txd t)
                  else (t, Inr Continue))))))"

fun sig_loop ::
  "env \<Rightarrow> string \<Rightarrow> string \<Rightarrow> string \<Rightarrow> utxo_record option list \<Rightarrow> nat \<Rightarrow> (nat \<times> string) list \<Rightarrow>
     taker \<Rightarrow> taker \<times> (exn + unit)" where
  "sig_loop e nick sig txhex utxo_data i [] t = (t, Inr ())"
| "sig_loop e nick sig txhex utxo_data i (u # rest) t =
     (case sig_step e nick sig txhex utxo_data i u t of
        (t1, Inl x) \<Rightarrow> (t1, Inl x)
      | (t1, Inr Break) \<Rightarrow> (t1, Inr ())
      | (t1, Inr Continue) \<Rightarrow> sig_loop e nick sig txhex utxo_data (i + 1) rest t1)"

text \<open>Lines 542 to 549: the inputs whose script is still empty, with their positions.\<close>

definition unsigned_inputs :: "tx \<Rightarrow> (nat \<times> string) list" where
  "unsigned_inputs txd =
     map (\<lambda>p. (fst p, utxo_str (snd p)))
       (filter (\<lambda>p. in_script (snd p) = []) (zip [0 ..< length (ins txd)] (ins txd)))"

definition on_sig ::
  "env \<Rightarrow> taker_hooks \<Rightarrow> taker \<Rightarrow> string \<Rightarrow> string \<Rightarrow> taker \<times> (exn + taker_ret)" where
  "on_sig e h t nick sigb64 =
     (if aborted t then (t, Inr RetBoolFalse)
      else if nick \<notin> set (nonrespondants t)
      then (add_event (Log (''add_signature => nick='' @ nick @ '' not in nonrespondants'')) t,
            Inr RetNone)
      else
        (case b64decode_hexlify e sigb64 of
           None \<Rightarrow> (t, Inl ExternalError)
         | Some sig \<Rightarrow>
        (case latest_tx t of
           None \<Rightarrow> (t, Inl TypeError)
         | Some txd \<Rightarrow>
        (let txhex = serialize e txd;
             utxo = unsigned_inputs txd;
             utxo_data = query_utxo_set e (map snd utxo) False
         in case sig_loop e nick sig txhex utxo_data 0 utxo t of
              (t1, Inl x) \<Rightarrow> (t1, Inl x)
            | (t1, Inr u) \<Rightarrow>
                (case latest_tx t1 of
                   None \<Rightarrow> (t1, Inl TypeError)
                 | Some txd1 \<Rightarrow>
                     if \<exists>i \<in> set (ins txd1). in_script i = [] then (t1, Inr RetBoolFalse)
                     else if nonrespondants t1 \<noteq> [] then (t1, Inl AssertionError)
                     else
                       (case self_sign_and_push h
                               (add_event (InfoCallback ''INFO''
                                  ''Transaction is valid, signing..'') t1) of
                          (t2, Inl x) \<Rightarrow> (t2, Inl x)
                        | (t2, Inr r) \<Rightarrow> (t2, Inr (RetPush r))))))))"

section \<open>The amounts of an accepted maker\<close>

text \<open>
  The quantities the claims name, read from the order book and from the answer of a
  counterparty: its \<open>real_cj_fee\<close> at the coinjoin amount, its \<open>txfee\<close>, and the two
  outputs it is given, the change \<open>sum of its inputs - cjamount - txfee + real_cj_fee\<close>
  and the coinjoin amount.
\<close>

definition real_cj_fee_of :: "env \<Rightarrow> (string \<times> offer) list \<Rightarrow> int \<Rightarrow> string \<Rightarrow> int" where
  "real_cj_fee_of e book amount nick =
     (case map_of book nick of
        None \<Rightarrow> 0
      | Some off \<Rightarrow> (case calc_cj_fee e (ordertype off) (cjfee off) amount of
                      None \<Rightarrow> 0
                    | Some fee \<Rightarrow> fee))"

definition maker_txfee_of :: "(string \<times> offer) list \<Rightarrow> string \<Rightarrow> int" where
  "maker_txfee_of book nick = (case map_of book nick of None \<Rightarrow> 0 | Some off \<Rightarrow> txfee off)"

definition maker_outputs ::
  "env \<Rightarrow> (string \<times> offer) list \<Rightarrow> int \<Rightarrow> string \<Rightarrow> ioauth \<Rightarrow> tx_output list" where
  "maker_outputs e book amount nick nickdata =
     [\<lparr>o_address = io_change_addr nickdata,
       o_value = total_input (map the (query_utxo_set e (io_utxo_list nickdata) False))
                   - amount - maker_txfee_of book nick + real_cj_fee_of e book amount nick\<rparr>,
      \<lparr>o_address = io_cj_addr nickdata, o_value = amount\<rparr>]"

definition outputs_of ::
  "env \<Rightarrow> (string \<times> offer) list \<Rightarrow> int \<Rightarrow> (string \<times> ioauth) list \<Rightarrow> string list \<Rightarrow> tx_output list" where
  "outputs_of e book amount ioauth_data nicks =
     concat (map (\<lambda>nick. case map_of ioauth_data nick of
                            None \<Rightarrow> []
                          | Some nickdata \<Rightarrow> maker_outputs e book amount nick nickdata) nicks)"

section \<open>Example data\<close>

text \<open>A small environment and a maker's order, to run the definitions on.\<close>

definition ex_chain :: "(string \<times> utxo_record) list" where
  "ex_chain =
     [(''tk:0'', \<lparr>r_value = 360287970189640, r_script = ''0014aa'', r_address = ''tkaddr0'',
                  r_confirms = 10\<rparr>),
      (''tk:1'', \<lparr>r_value = 9000000, r_script = ''a914bb'', r_address = ''tkaddr1'',
                  r_confirms = 10\<rparr>),
      (''m1:0'', \<lparr>r_value = 5000000, r_script = ''0014c1'', r_address = ''m1addr'',
                  r_confirms = 7\<rparr>),
      (''m1:1'', \<lparr>r_value = 3000000, r_script = ''0014c2'', r_address = ''m1addr2'',
                  r_confirms = 7\<rparr>),
      (''m2:0'', \<lparr>r_value = 2000100, r_script = ''a914c3'', r_address = ''m2addr'',
                  r_confirms = 7\<rparr>)]"

text \<open>A toy wire format: the inputs as \<open>hash:index;\<close>, a signature message as its
  items joined by \<open>|\<close>, a signature as \<open>nonce/pub/script\<close> with a nonce of two
  characters.\<close>

fun ex_split :: "char \<Rightarrow> string \<Rightarrow> string list" where
  "ex_split c [] = [[]]"
| "ex_split c (x # xs) =
     (if x = c then [] # ex_split c xs
      else (case ex_split c xs of [] \<Rightarrow> [[x]] | w # ws \<Rightarrow> (x # w) # ws))"

definition ex_nat_of_str :: "string \<Rightarrow> nat" where
  "ex_nat_of_str s = foldl (\<lambda>n ch. 10 * n + (of_char ch - 48)) 0 s"

definition ex_in :: "string \<Rightarrow> nat \<Rightarrow> string \<Rightarrow> txin" where
  "ex_in h n script =
     \<lparr>in_outpoint = \<lparr>op_hash = h, op_index = n\<rparr>, in_script = script, in_txinwitness = None\<rparr>"

definition ex_deserialize :: "string \<Rightarrow> tx option" where
  "ex_deserialize txhex =
     Some \<lparr>ins = map (\<lambda>u. case ex_split CHR '':'' u of
                              [h, n] \<Rightarrow> ex_in h (ex_nat_of_str n) []
                            | _ \<Rightarrow> ex_in u 0 [])
                   (butlast (ex_split CHR '';'' txhex)),
           outs = []\<rparr>"

definition ex_env :: env where
  "ex_env =
     \<lparr>address_to_script = (\<lambda>a. if a = [] then None else Some (''S:'' @ a)),
      calc_cj_fee = (\<lambda>ot fee amt. if ot = ''swabsoffer'' then Some 3000
                                    else if ot = ''swreloffer'' then Some (amt div 1000)
                                    else None),
      query_utxo_set = (\<lambda>us includeconf. map (map_of ex_chain) us),
      pubkey_has_script = (\<lambda>pub script. Some (pub = ''02'' @ drop 4 script)),
      taker_utxo_retries = 3,
      taker_utxo_age = 5,
      taker_utxo_amtpercent = 20,
      minimum_makers = 1,
      mincjamount = 100000,
      DUST_THRESHOLD = 2730,
      BITCOIN_DUST_THRESHOLD = 546,
      deserialize_revelation =
        (\<lambda>cr. if cr = ''rev0''
               then Some \<lparr>cr_utxo = ''tk:0'', cr_P = ''02aa'', cr_P2 = ''03'', cr_sig = ''04'',
                          cr_e = ''05''\<rparr>
               else if cr = ''rev1''
               then Some \<lparr>cr_utxo = ''tk:1'', cr_P = ''02bb'', cr_P2 = ''03'', cr_sig = ''04'',
                          cr_e = ''05''\<rparr>
               else None),
      verify_podle = (\<lambda>P P2 s ee commitment tries. commitment = ''P'' @ P2),
      oid_to_order =
        (\<lambda>off amount. ([(''m1:0'', \<lparr>u_address = ''m1addr'', u_value = 5000000\<rparr>)],
                         ''m1cj'', ''m1change'')),
      get_key_from_addr = (\<lambda>a. ''key:'' @ a),
      privtopub = (\<lambda>k. ''pub:'' @ k),
      ecdsa_sign = (\<lambda>msg k. ''sig:'' @ msg @ '':'' @ k),
      ecdsa_verify = (\<lambda>msg sig pub. Some (sig = ''goodsig'')),
      validate_address = (\<lambda>a. a \<noteq> [] \<and> hd a \<noteq> CHR ''!''),
      estimate_tx_fee = (\<lambda>n_ins n_outs. int (150 * n_ins + 35 * n_outs)),
      shuffle_utxo_tx = rev,
      shuffle_outputs = rev,
      mktx = (\<lambda>utxo_list outs. Some (concat (map (\<lambda>u. u @ '';'') utxo_list))),
      deserialize = ex_deserialize,
      serialize = (\<lambda>txd. concat (map utxo_str (ins txd))),
      get_balance_by_mixdepth = [(0, 4000000), (1, 0)],
      wallet_mixdepth = 4,
      get_internal_addr = (\<lambda>m. ''internal'' @ str_int m),
      b64decode_hexlify = Some,
      deserialize_script = (\<lambda>sig. map ItemStr (ex_split CHR ''|'' sig)),
      verify_tx_input =
        (\<lambda>txhex index script sig pub scriptCode amount.
           drop 2 sig = ''/'' @ pub @ ''/'' @ script \<and> pub = ''02'' @ drop 4 script),
      pubkey_to_p2pkh_script = (\<lambda>pub. ''76a9'' @ pub),
      is_segwit_native_script = (\<lambda>script. take 4 script = ''0014''),
      p2wpkh_script_unit = (\<lambda>pub. ''160014'' @ pub)\<rparr>"

definition ex_offer :: offer where
  "ex_offer =
     \<lparr>oid = 0, ordertype = ''swabsoffer'', minsize = 100000, maxsize = 1000000000,
      txfee = 1000, cjfee = ''3000'', counterparty = ''J5maker1''\<rparr>"

definition ex_offerinfo :: offerinfo where
  "ex_offerinfo =
     \<lparr>oi_offer = ex_offer,
      oi_utxos = [(''m1:0'', \<lparr>u_address = ''m1addr'', u_value = 5000000\<rparr>),
                  (''m1:1'', \<lparr>u_address = ''m1addr2'', u_value = 3000000\<rparr>)],
      oi_cjaddr = ''m1cj'',
      oi_changeaddr = ''m1change'',
      oi_amount = 2000000\<rparr>"

definition ex_tx :: tx where
  "ex_tx =
     \<lparr>ins = [ex_in ''m1'' 0 [], ex_in ''tk'' 1 [], ex_in ''m1'' 1 []],
      outs = [\<lparr>out_script = ''S:m1cj'', out_value = 2000000\<rparr>,
              \<lparr>out_script = ''S:tkcj'', out_value = 2000000\<rparr>,
              \<lparr>out_script = ''S:m1change'', out_value = 6002000\<rparr>,
              \<lparr>out_script = ''S:tkchange'', out_value = 6990000\<rparr>]\<rparr>"

text \<open>The same transaction with a second, wrongly valued output to the maker's
  coinjoin address.\<close>

definition ex_tx_two_cj :: tx where
  "ex_tx_two_cj = ex_tx\<lparr>outs := outs ex_tx @ [\<lparr>out_script = ''S:m1cj'', out_value = 1999999\<rparr>]\<rparr>"

text \<open>A taker in the middle of a transaction with two makers, and their answers.\<close>

definition ex_hooks :: taker_hooks where
  "ex_hooks =
     \<lparr>filter_orderbook =
        (\<lambda>t offers sweep. (t\<lparr>orderbook := map (\<lambda>off. (counterparty off, off)) offers\<rparr>,
                            Inr True)),
      prepare_my_bitcoin_data = (\<lambda>t. (t, Inr True)),
      make_commitment = (\<lambda>t. (t, Inr (Commitment ''P03'' ''rev1'' ''Commitment sourced OK''))),
      self_sign_and_push = (\<lambda>t. (t, Inr None))\<rparr>"

definition ex_taker :: taker where
  "ex_taker =
     \<lparr>aborted = False,
      schedule = [\<lparr>s_mixdepth = 0, s_cjamount = AmtInt 2000000, s_n_counterparties = 2,
                   s_destination = ''tkcj'', s_waittime = 0\<rparr>],
      schedule_index = 0,
      mixdepth = 0,
      cjamount = 2000000,
      mixdepthbal = None,
      n_counterparties = 2,
      my_cj_addr = ''tkcj'',
      my_change_addr = Some ''tkchange'',
      outputs = [],
      cjfee_total = 0,
      maker_txfee_contributions = 0,
      txfee_default = 5000,
      total_txfee = 20000,
      latest_tx = None,
      txid = None,
      ignored_makers = {},
      nonrespondants = [''J5maker1'', ''J5maker2''],
      utxos = [(None, [''tk:1''])],
      input_utxos = [(''tk:1'', \<lparr>u_address = ''tkaddr1'', u_value = 9000000\<rparr>)],
      orderbook = [(''J5maker1'', ex_offer),
                   (''J5maker2'', ex_offer\<lparr>counterparty := ''J5maker2''\<rparr>)],
      maker_utxo_data = [],
      utxo_tx = [],
      events = []\<rparr>"

text \<open>Maker 1 answers well: its change is \<open>5000000 + 3000000 - 2000000 - 1000 + 3000\<close>.\<close>

definition ex_ioauth1 :: ioauth where
  "ex_ioauth1 =
     \<lparr>io_utxo_list = [''m1:0'', ''m1:1''], io_auth_pub = ''02c1'', io_cj_addr = ''m1cj'',
      io_change_addr = ''m1change'', io_btc_sig = ''goodsig'', io_maker_pk = ''pk1''\<rparr>"

text \<open>Maker 2 offers one input of 2000100: its change \<open>2000100 - 2000000 - 1000 + 3000\<close>
  is below the dust threshold.\<close>

definition ex_ioauth2 :: ioauth where
  "ex_ioauth2 =
     \<lparr>io_utxo_list = [''m2:0''], io_auth_pub = ''02c3'', io_cj_addr = ''m2cj'',
      io_change_addr = ''m2change'', io_btc_sig = ''goodsig'', io_maker_pk = ''pk2''\<rparr>"

text \<open>An answer with a wrong signature and an invalid coinjoin address.\<close>

definition ex_ioauth_bad :: ioauth where
  "ex_ioauth_bad =
     \<lparr>io_utxo_list = [''m2:0''], io_auth_pub = ''02c3'', io_cj_addr = ''!m2cj'',
      io_change_addr = ''m2change'', io_btc_sig = ''badsig'', io_maker_pk = ''pk2''\<rparr>"

text \<open>A schedule of two fractional amounts in the same mixdepth, after the first
  coinjoin: the balance captured at entry was 10000000, the wallet now holds 4000000.\<close>

definition ex_taker_tumble :: taker where
  "ex_taker_tumble =
     ex_taker\<lparr>schedule :=
                [\<lparr>s_mixdepth = 0, s_cjamount = AmtFloat (PyFloat 1 (- 1)),
                  s_n_counterparties = 2, s_destination = ''tkcj'', s_waittime = 0\<rparr>,
                 \<lparr>s_mixdepth = 0, s_cjamount = AmtFloat (PyFloat 1 (- 1)),
                  s_n_counterparties = 2, s_destination = ''tkcj2'', s_waittime = 0\<rparr>],
              schedule_index := 0,
              cjamount := 5000000,
              mixdepthbal := Some 10000000\<rparr>"

text \<open>The unsigned transaction of the taker and maker 1, whose two inputs are native
  segwit outputs.\<close>

definition ex_taker_signing :: taker where
  "ex_taker_signing =
     ex_taker\<lparr>latest_tx :=
                Some \<lparr>ins = [ex_in ''m1'' 0 [], ex_in ''tk'' 1 ''deadbeef'', ex_in ''m1'' 1 []],
                      outs = []\<rparr>,
              nonrespondants := [''J5maker1''],
              utxos := [(None, [''tk:1'']), (Some ''J5maker1'', [''m1:0'', ''m1:1''])]\<rparr>"

text \<open>Two views of \<open>latest_tx\<close>: the witness of input \<open>k\<close>, and the outpoints of
  the inputs.\<close>

definition input_witness :: "taker \<Rightarrow> nat \<Rightarrow> string list option" where
  "input_witness t k =
     (case latest_tx t of None \<Rightarrow> None | Some txd \<Rightarrow> in_txinwitness (ins txd ! k))"

definition input_outpoints :: "taker \<Rightarrow> string list" where
  "input_outpoints t = (case latest_tx t of None \<Rightarrow> [] | Some txd \<Rightarrow> map utxo_str (ins txd))"

section \<open>Properties of verify_unsigned_tx\<close>

lemma check_outs_Inr:
  "check_outs cs chs a ecv os n m = Inr (n', m') \<Longrightarrow>
     n' = n + length (filter (\<lambda>out. out_script out = cs) os) \<and>
     m' = m + length (filter (\<lambda>out. out_script out = chs) os) \<and>
     (\<forall>out \<in> set os. (out_script out = cs \<longrightarrow> out_value out = a) \<and>
                      (out_script out = chs \<longrightarrow> out_value out = ecv))"
proof (induction os arbitrary: n m)
  case Nil
  then show ?case by simp
next
  case (Cons out rest)
  from Cons.prems have ok:
    "\<not> (out_script out = cs \<and> out_value out \<noteq> a)"
    "\<not> (out_script out = chs \<and> out_value out \<noteq> ecv)"
    by (auto split: if_splits)
  with Cons.prems have rec:
    "check_outs cs chs a ecv rest
       (if out_script out = cs then n + 1 else n)
       (if out_script out = chs then m + 1 else m) = Inr (n', m')"
    by (simp split: if_splits)
  from Cons.IH [OF rec] ok show ?case by auto
qed

lemma check_outs_Inl:
  "out \<in> set os \<Longrightarrow>
   (out_script out = cs \<and> out_value out \<noteq> a) \<or> (out_script out = chs \<and> out_value out \<noteq> ecv) \<Longrightarrow>
   \<exists>msg. check_outs cs chs a ecv os n m = Inl msg"
  by (induction os arbitrary: n m) auto

text \<open>
  Claim C1. Whenever \<open>verify_unsigned_tx\<close> returns \<open>(True, None)\<close>: every key of
  \<open>offerinfo["utxos"]\<close> is the outpoint of an input of the transaction; exactly one
  output has the script of the coinjoin address, and an output with that script has
  the value \<open>amount\<close>; exactly one output has the script of the change address, and an
  output with that script has the value
  \<open>sum of the utxo values - amount - txfee + real_cjfee\<close>.
\<close>

theorem verify_unsigned_tx_accepted:
  assumes "verify_unsigned_tx e txd offerinfo = Inr (True, None)"
  shows "set (map fst (oi_utxos offerinfo)) \<subseteq> set (map utxo_str (ins txd)) \<and>
         (\<exists>cjaddr_script changeaddr_script real_cjfee.
            address_to_script e (oi_cjaddr offerinfo) = Some cjaddr_script \<and>
            address_to_script e (oi_changeaddr offerinfo) = Some changeaddr_script \<and>
            calc_cj_fee e (ordertype (oi_offer offerinfo)) (cjfee (oi_offer offerinfo))
              (oi_amount offerinfo) = Some real_cjfee \<and>
            length (filter (\<lambda>out. out_script out = cjaddr_script) (outs txd)) = 1 \<and>
            (\<forall>out \<in> set (outs txd).
               out_script out = cjaddr_script \<longrightarrow> out_value out = oi_amount offerinfo) \<and>
            length (filter (\<lambda>out. out_script out = changeaddr_script) (outs txd)) = 1 \<and>
            (\<forall>out \<in> set (outs txd).
               out_script out = changeaddr_script \<longrightarrow>
               out_value out =
                 sum_list (map (\<lambda>kv. u_value (snd kv)) (oi_utxos offerinfo))
                   - oi_amount offerinfo - txfee (oi_offer offerinfo) + real_cjfee))"
proof -
  from assms obtain cs where cs: "address_to_script e (oi_cjaddr offerinfo) = Some cs"
    by (auto simp: verify_unsigned_tx_def Let_def split: option.splits)
  from assms cs obtain chs where chs: "address_to_script e (oi_changeaddr offerinfo) = Some chs"
    by (auto simp: verify_unsigned_tx_def Let_def split: option.splits)
  from assms cs chs have sub:
    "set (map fst (oi_utxos offerinfo)) \<subseteq> set (map utxo_str (ins txd))"
    by (auto simp: verify_unsigned_tx_def Let_def split: if_splits)
  from assms cs chs sub obtain f where
    f: "calc_cj_fee e (ordertype (oi_offer offerinfo)) (cjfee (oi_offer offerinfo))
          (oi_amount offerinfo) = Some f"
    by (auto simp: verify_unsigned_tx_def Let_def split: option.splits if_splits)
  let ?ecv = "my_total_in (oi_utxos offerinfo) - oi_amount offerinfo
                - txfee (oi_offer offerinfo) + f"
  from assms cs chs sub f have
    co: "check_outs cs chs (oi_amount offerinfo) ?ecv (outs txd) 0 0 = Inr (1, 1)"
    by (auto simp: verify_unsigned_tx_def Let_def split: sum.splits if_splits)
  from check_outs_Inr [OF co] sub cs chs f show ?thesis
    by (simp add: my_total_in_def)
qed

theorem verify_unsigned_tx_accepted_witness:
  "verify_unsigned_tx ex_env ex_tx ex_offerinfo = Inr (True, None) \<and>
   set (map fst (oi_utxos ex_offerinfo)) \<subseteq> set (map utxo_str (ins ex_tx)) \<and>
   (\<exists>cjaddr_script changeaddr_script real_cjfee.
      address_to_script ex_env (oi_cjaddr ex_offerinfo) = Some cjaddr_script \<and>
      address_to_script ex_env (oi_changeaddr ex_offerinfo) = Some changeaddr_script \<and>
      calc_cj_fee ex_env (ordertype (oi_offer ex_offerinfo)) (cjfee (oi_offer ex_offerinfo))
        (oi_amount ex_offerinfo) = Some real_cjfee \<and>
      length (filter (\<lambda>out. out_script out = cjaddr_script) (outs ex_tx)) = 1 \<and>
      (\<forall>out \<in> set (outs ex_tx).
         out_script out = cjaddr_script \<longrightarrow> out_value out = oi_amount ex_offerinfo) \<and>
      length (filter (\<lambda>out. out_script out = changeaddr_script) (outs ex_tx)) = 1 \<and>
      (\<forall>out \<in> set (outs ex_tx).
         out_script out = changeaddr_script \<longrightarrow>
         out_value out =
           sum_list (map (\<lambda>kv. u_value (snd kv)) (oi_utxos ex_offerinfo))
             - oi_amount ex_offerinfo - txfee (oi_offer ex_offerinfo) + real_cjfee))"
proof -
  have run: "verify_unsigned_tx ex_env ex_tx ex_offerinfo = Inr (True, None)"
    by code_simp
  from verify_unsigned_tx_accepted [OF run] run show ?thesis
    by (rule_tac conjI)
qed

text \<open>
  Claim C2. The value check applies to every output that pays the coinjoin or the
  change address: when the transaction has an output with the script of the coinjoin
  address and a value other than \<open>amount\<close>, or an output with the script of the change
  address and a value other than the expected change, \<open>verify_unsigned_tx\<close> returns
  \<open>(False, msg)\<close>, whatever the other outputs are.
\<close>

theorem verify_unsigned_tx_every_output:
  assumes "address_to_script e (oi_cjaddr offerinfo) = Some cjaddr_script"
    and "address_to_script e (oi_changeaddr offerinfo) = Some changeaddr_script"
    and "calc_cj_fee e (ordertype (oi_offer offerinfo)) (cjfee (oi_offer offerinfo))
           (oi_amount offerinfo) = Some real_cjfee"
    and "out \<in> set (outs txd)"
    and "(out_script out = cjaddr_script \<and> out_value out \<noteq> oi_amount offerinfo) \<or>
         (out_script out = changeaddr_script \<and>
          out_value out \<noteq>
            sum_list (map (\<lambda>kv. u_value (snd kv)) (oi_utxos offerinfo))
              - oi_amount offerinfo - txfee (oi_offer offerinfo) + real_cjfee)"
  shows "\<exists>msg. verify_unsigned_tx e txd offerinfo = Inr (False, Some msg)"
proof -
  let ?ecv = "my_total_in (oi_utxos offerinfo) - oi_amount offerinfo
                - txfee (oi_offer offerinfo) + real_cjfee"
  from assms(5) have bad:
    "(out_script out = cjaddr_script \<and> out_value out \<noteq> oi_amount offerinfo) \<or>
     (out_script out = changeaddr_script \<and> out_value out \<noteq> ?ecv)"
    by (simp add: my_total_in_def)
  from check_outs_Inl [OF assms(4) bad] obtain msg where
    "check_outs cjaddr_script changeaddr_script (oi_amount offerinfo) ?ecv (outs txd) 0 0
       = Inl msg"
    by blast
  with assms(1,2,3) show ?thesis
    by (simp add: verify_unsigned_tx_def Let_def)
qed

theorem verify_unsigned_tx_every_output_witness:
  "\<lparr>out_script = ''S:m1cj'', out_value = 2000000\<rparr> \<in> set (outs ex_tx_two_cj) \<and>
   \<lparr>out_script = ''S:m1cj'', out_value = 1999999\<rparr> \<in> set (outs ex_tx_two_cj) \<and>
   (\<exists>msg. verify_unsigned_tx ex_env ex_tx_two_cj ex_offerinfo = Inr (False, Some msg))"
proof -
  have a: "address_to_script ex_env (oi_cjaddr ex_offerinfo) = Some ''S:m1cj''"
    by (simp add: ex_env_def ex_offerinfo_def)
  have b: "address_to_script ex_env (oi_changeaddr ex_offerinfo) = Some ''S:m1change''"
    by (simp add: ex_env_def ex_offerinfo_def)
  have c: "calc_cj_fee ex_env (ordertype (oi_offer ex_offerinfo))
             (cjfee (oi_offer ex_offerinfo)) (oi_amount ex_offerinfo) = Some 3000"
    by (simp add: ex_env_def ex_offerinfo_def ex_offer_def)
  have d: "\<lparr>out_script = ''S:m1cj'', out_value = 1999999\<rparr> \<in> set (outs ex_tx_two_cj)"
    by (simp add: ex_tx_two_cj_def)
  have d': "\<lparr>out_script = ''S:m1cj'', out_value = 2000000\<rparr> \<in> set (outs ex_tx_two_cj)"
    by (simp add: ex_tx_two_cj_def ex_tx_def)
  have f: "(out_script \<lparr>out_script = ''S:m1cj'', out_value = 1999999\<rparr> = ''S:m1cj'' \<and>
            out_value \<lparr>out_script = ''S:m1cj'', out_value = 1999999\<rparr>
              \<noteq> oi_amount ex_offerinfo) \<or>
           (out_script \<lparr>out_script = ''S:m1cj'', out_value = 1999999\<rparr> = ''S:m1change'' \<and>
            out_value \<lparr>out_script = ''S:m1cj'', out_value = 1999999\<rparr> \<noteq>
              sum_list (map (\<lambda>kv. u_value (snd kv)) (oi_utxos ex_offerinfo))
                - oi_amount ex_offerinfo - txfee (oi_offer ex_offerinfo) + 3000)"
    by (simp add: ex_offerinfo_def)
  from verify_unsigned_tx_every_output [OF a b c d f] d d' show ?thesis
    by simp
qed


section \<open>Properties of the float arithmetic\<close>

lemma bit_length_nonneg: "0 \<le> bit_length n"
  by (induction n rule: bit_length.induct) (simp add: bit_length.simps)

lemma bit_length_pos: "0 < n \<Longrightarrow> 1 \<le> bit_length n"
  using bit_length_nonneg [of "n div 2"] by (subst bit_length.simps) simp

lemma bit_length_double: "0 < n \<Longrightarrow> bit_length (2 * n) = 1 + bit_length n"
  by (subst bit_length.simps) simp

lemma bit_length_shift: "0 < n \<Longrightarrow> bit_length (n * 2 ^ k) = int k + bit_length n"
proof (induction k)
  case 0
  then show ?case by simp
next
  case (Suc k)
  from Suc.prems have pos: "0 < n * 2 ^ k" by simp
  have "bit_length (n * 2 ^ Suc k) = bit_length (2 * (n * 2 ^ k))"
    by (simp add: mult.commute mult.left_commute)
  also have "\<dots> = 1 + bit_length (n * 2 ^ k)"
    using pos by (rule bit_length_double)
  finally show ?case using Suc by simp
qed

lemma bit_length_le: "n < 2 ^ k \<Longrightarrow> bit_length n \<le> int k"
proof (induction k arbitrary: n)
  case 0
  then show ?case by (subst bit_length.simps) simp
next
  case (Suc k)
  show ?case
  proof (cases "n \<le> 0")
    case True
    then show ?thesis by (subst bit_length.simps) simp
  next
    case False
    from Suc.prems have "n div 2 < 2 ^ k" by simp
    from Suc.IH [OF this] False show ?thesis
      by (subst bit_length.simps) simp
  qed
qed

lemma bit_length_1: "bit_length 1 = 1"
  by (simp add: bit_length.simps)

lemma bit_length_100: "bit_length 100 = 7"
  by (simp add: bit_length.simps)

lemma round_half_even_cancel:
  "0 < c \<Longrightarrow> round_half_even (c * n) (c * d) = round_half_even n d"
  unfolding round_half_even_def Let_def
  by (simp add: mult_mod_right [symmetric] mult.left_commute)

lemma round_half_even_div100:
  assumes x: "0 \<le> x" and a: "50 < a"
  shows "round_half_even (x * a) 100 div a = x div 100"
proof -
  define K where "K = x div 100"
  define j where "j = x mod 100"
  define q where "q = (x * a) div 100"
  define r where "r = (x * a) mod 100"
  define m where "m = round_half_even (x * a) 100"
  have xKj: "x = 100 * K + j" and j: "0 \<le> j" "j \<le> 99"
    by (simp_all add: K_def j_def)
  have xaqr: "x * a = 100 * q + r" and r: "0 \<le> r" "r < 100"
    by (simp_all add: q_def r_def)
  have m_eq: "m = (if 2 * r > 100 \<or> (2 * r = 100 \<and> odd q) then q + 1 else q)"
    by (simp add: m_def round_half_even_def Let_def q_def r_def)
  have ja: "j * a \<le> 99 * a"
    using j a by (intro mult_right_mono) simp_all
  have ja0: "0 \<le> j * a"
    using j a by simp
  have xa: "x * a = 100 * (K * a) + j * a"
    by (simp add: xKj algebra_simps)
  have lower: "K * a \<le> q"
  proof -
    have "100 * (K * a) \<le> x * a" using xa ja0 by simp
    then have "(100 * (K * a)) div 100 \<le> (x * a) div 100" by (rule zdiv_mono1) simp
    then show ?thesis by (simp add: q_def)
  qed
  have qm: "q \<le> m" by (simp add: m_eq)
  have upper100: "100 * m \<le> x * a + 50"
    using xaqr r by (auto simp: m_eq split: if_splits)
  have "x * a + 50 < 100 * (K * a) + 100 * a"
    using xa ja a by linarith
  with upper100 have "100 * m < 100 * ((K + 1) * a)"
    by (simp add: algebra_simps)
  then have upper: "m < (K + 1) * a" by simp
  define t where "t = m - K * a"
  have t: "0 \<le> t" "t < a" using lower qm upper by (simp_all add: t_def algebra_simps)
  have "m = t + K * a" by (simp add: t_def)
  then have "m div a = t div a + K" using a by simp
  with t have "m div a = K" by simp
  then show ?thesis by (simp add: m_def K_def)
qed

lemma round_half_even_nonneg: "0 \<le> n \<Longrightarrow> 0 < d \<Longrightarrow> 0 \<le> round_half_even n d"
  by (simp add: round_half_even_def Let_def pos_imp_zdiv_nonneg_iff)

lemma round_to_double_exponent:
  assumes "n \<noteq> 0"
  shows "\<exists>e. (e = max (bit_length n - bit_length d - 53) (- 1074) \<or>
              e = max (bit_length n - bit_length d - 53 + 1) (- 1074)) \<and>
             round_to_double n d =
               (if 0 \<le> e \<and> float_overflow_bound
                             \<le> round_half_even (n * 2 ^ nat (- e)) (d * 2 ^ nat e) * 2 ^ nat e
                then None
                else Some (PyFloat (round_half_even (n * 2 ^ nat (- e)) (d * 2 ^ nat e)) e))"
proof (cases "2 ^ 53 * (d * 2 ^ nat (bit_length n - bit_length d - 53))
                \<le> n * 2 ^ nat (- (bit_length n - bit_length d - 53))")
  case True
  show ?thesis
    apply (rule exI [of _ "max (bit_length n - bit_length d - 53 + 1) (- 1074)"])
    using True assms
    apply (simp only: round_to_double_def Let_def if_True if_False simp_thms)
    done
next
  case False
  show ?thesis
    apply (rule exI [of _ "max (bit_length n - bit_length d - 53) (- 1074)"])
    using False assms
    apply (simp only: round_to_double_def Let_def if_True if_False simp_thms)
    done
qed

lemma round_half_even_1: "round_half_even n 1 = n"
  by (simp add: round_half_even_def)

lemma float_of_int_exact:
  assumes "0 < x" "x < 2 ^ 53"
  shows "\<exists>k. float_of_int x = Inr (PyFloat (x * 2 ^ k) (- int k))"
proof -
  have bl: "1 \<le> bit_length x" "bit_length x \<le> 53"
    using bit_length_pos [OF assms(1)] bit_length_le [OF assms(2)] by simp_all
  from assms(1) have "x \<noteq> 0" by simp
  from round_to_double_exponent [OF this, of 1] obtain e where
    e: "e = max (bit_length x - bit_length 1 - 53) (- 1074) \<or>
        e = max (bit_length x - bit_length 1 - 53 + 1) (- 1074)"
    and rd: "round_to_double x 1 =
       (if 0 \<le> e \<and> float_overflow_bound \<le> round_half_even (x * 2 ^ nat (- e)) (1 * 2 ^ nat e) * 2 ^ nat e
        then None
        else Some (PyFloat (round_half_even (x * 2 ^ nat (- e)) (1 * 2 ^ nat e)) e))"
    by blast
  from e bl have e_bounds: "- 53 \<le> e" "e \<le> 0"
    by (auto simp: bit_length_1)
  then have nat_e: "nat e = 0" by simp
  have small: "x < float_overflow_bound"
  proof -
    have "(2::int) ^ 53 \<le> 2 ^ 1024" by (rule power_increasing) simp_all
    with assms(2) show ?thesis unfolding float_overflow_bound_def by linarith
  qed
  have no_overflow: "\<not> (0 \<le> e \<and> float_overflow_bound \<le> x * 2 ^ nat (- e))"
  proof
    assume h: "0 \<le> e \<and> float_overflow_bound \<le> x * 2 ^ nat (- e)"
    with e_bounds have "e = 0" by simp
    with h small show False by simp
  qed
  from rd no_overflow have "round_to_double x 1 = Some (PyFloat (x * 2 ^ nat (- e)) e)"
    by (simp add: nat_e round_half_even_1)
  moreover have "e = - int (nat (- e))" using e_bounds by simp
  ultimately have "float_of_int x = Inr (PyFloat (x * 2 ^ nat (- e)) (- int (nat (- e))))"
    using assms(1) by (simp add: float_of_int_def)
  then show ?thesis by blast
qed

lemma float_div_100:
  assumes "0 < x" "x < 2 ^ 53"
  shows "\<exists>m e. float_div (PyFloat (x * 2 ^ k) (- int k)) (PyFloat 100 0) = Inr (Some (PyFloat m e))
           \<and> e \<le> - 6 \<and> m = round_half_even (x * 2 ^ nat (- e)) 100"
proof -
  let ?n = "x * 2 ^ k" and ?d = "100 * (2::int) ^ k"
  have bl: "1 \<le> bit_length x" "bit_length x \<le> 53"
    using bit_length_pos [OF assms(1)] bit_length_le [OF assms(2)] by simp_all
  have bn: "bit_length ?n = int k + bit_length x"
    using assms(1) by (rule bit_length_shift)
  have bd: "bit_length ?d = int k + 7"
    using bit_length_shift [of 100 k] by (simp add: bit_length_100)
  from assms(1) have n0: "?n \<noteq> 0" by simp
  from round_to_double_exponent [OF n0, of ?d] obtain e where
    e: "e = max (bit_length ?n - bit_length ?d - 53) (- 1074) \<or>
        e = max (bit_length ?n - bit_length ?d - 53 + 1) (- 1074)"
    and rd: "round_to_double ?n ?d =
       (if 0 \<le> e \<and> float_overflow_bound \<le> round_half_even (?n * 2 ^ nat (- e)) (?d * 2 ^ nat e) * 2 ^ nat e
        then None
        else Some (PyFloat (round_half_even (?n * 2 ^ nat (- e)) (?d * 2 ^ nat e)) e))"
    by blast
  from e bl have e6: "e \<le> - 6"
    by (auto simp: bn bd)
  then have nat_e: "nat e = 0" by simp
  have "round_half_even (?n * 2 ^ nat (- e)) ?d
          = round_half_even (2 ^ k * (x * 2 ^ nat (- e))) (2 ^ k * 100)"
    by (simp add: mult_ac)
  also have "\<dots> = round_half_even (x * 2 ^ nat (- e)) 100"
    by (rule round_half_even_cancel) simp
  finally have m: "round_half_even (?n * 2 ^ nat (- e)) ?d
                    = round_half_even (x * 2 ^ nat (- e)) 100" .
  from rd e6 m have "round_to_double ?n ?d
      = Some (PyFloat (round_half_even (x * 2 ^ nat (- e)) 100) e)"
    by (simp add: nat_e)
  moreover have "\<bar>x * 2 ^ k\<bar> = x * 2 ^ k" using assms(1) by simp
  ultimately have "float_div (PyFloat (x * 2 ^ k) (- int k)) (PyFloat 100 0)
      = Inr (Some (PyFloat (round_half_even (x * 2 ^ nat (- e)) 100) e))"
    using assms(1) by (simp add: zero_less_mult_iff not_less)
  with e6 show ?thesis by blast
qed

lemma int_truediv_100_exact:
  assumes "0 \<le> x" "x < 2 ^ 53"
  shows "(case float_of_int x of
            Inl err \<Rightarrow> Inl err
          | Inr f \<Rightarrow> (case float_div f (PyFloat 100 0) of
                        Inl err \<Rightarrow> Inl err
                      | Inr q \<Rightarrow> int_of_float q)) = Inr (x div 100)"
proof (cases "x = 0")
  case True
  then show ?thesis
    by (simp add: float_of_int_def round_to_double_def)
next
  case False
  with assms have pos: "0 < x" by simp
  from float_of_int_exact [OF pos assms(2)] obtain k where
    f: "float_of_int x = Inr (PyFloat (x * 2 ^ k) (- int k))" by blast
  from float_div_100 [OF pos assms(2), of k] obtain m e where
    d: "float_div (PyFloat (x * 2 ^ k) (- int k)) (PyFloat 100 0) = Inr (Some (PyFloat m e))"
    and e6: "e \<le> - 6" and m: "m = round_half_even (x * 2 ^ nat (- e)) 100"
    by blast
  have m0: "0 \<le> m"
    unfolding m using pos by (intro round_half_even_nonneg) simp_all
  have "(2::int) ^ 6 \<le> 2 ^ nat (- e)"
    using e6 by (intro power_increasing) simp_all
  then have big: "50 < (2::int) ^ nat (- e)" by simp
  have "m div 2 ^ nat (- e) = x div 100"
    unfolding m using assms(1) big by (rule round_half_even_div100)
  with f d e6 m0 show ?thesis by simp
qed

lemma reqd_amt_floor:
  assumes "0 \<le> amount * taker_utxo_amtpercent e"
    and "amount * taker_utxo_amtpercent e < 2 ^ 53"
  shows "reqd_amt e amount = Inr ((amount * taker_utxo_amtpercent e) div 100)"
  unfolding reqd_amt_def by (rule int_truediv_100_exact [OF assms])

section \<open>Properties of on_auth_received\<close>

text \<open>
  Claim C3, amended. For a request whose revelation deserializes and whose proof
  verifies, and with \<open>0 \<le> amount * taker_utxo_amtpercent < 2 ^ 53\<close>: the request is
  accepted only if the query of the committed utxo returns exactly one valid record,
  with at least \<open>taker_utxo_age\<close> confirmations and a value of at least
  \<open>floor (amount * taker_utxo_amtpercent / 100)\<close>; and when no such record is returned
  the result is \<open>(False,)\<close>.
\<close>

theorem on_auth_received_utxo_checks:
  assumes "deserialize_revelation e cr = Some cr_dict"
    and "verify_podle e (cr_P cr_dict) (cr_P2 cr_dict) (cr_sig cr_dict) (cr_e cr_dict)
           commitment (taker_utxo_retries e)"
    and "0 \<le> amount * taker_utxo_amtpercent e"
    and "amount * taker_utxo_amtpercent e < 2 ^ 53"
  shows "(\<forall>utxos auth_pub cj_addr change_addr btc_sig.
            on_auth_received e nick offer commitment cr amount kphex
              = Inr (AuthAccept utxos auth_pub cj_addr change_addr btc_sig) \<longrightarrow>
            (\<exists>res0. query_utxo_set e [cr_utxo cr_dict] True = [Some res0] \<and>
                    taker_utxo_age e \<le> r_confirms res0 \<and>
                    (amount * taker_utxo_amtpercent e) div 100 \<le> r_value res0)) \<and>
         ((\<forall>res0. query_utxo_set e [cr_utxo cr_dict] True = [Some res0] \<longrightarrow>
                   r_confirms res0 < taker_utxo_age e \<or>
                   r_value res0 < (amount * taker_utxo_amtpercent e) div 100) \<longrightarrow>
          on_auth_received e nick offer commitment cr amount kphex = Inr AuthReject)"
proof -
  note rq = reqd_amt_floor [OF assms(3,4)]
  show ?thesis
    using assms(1,2)
    by (auto simp: on_auth_received_def Let_def rq
             split: list.splits option.splits bool.splits prod.splits if_splits)
qed

theorem on_auth_received_utxo_checks_witness:
  "on_auth_received ex_env ''J5taker'' ex_offer ''P03'' ''rev1'' 2000000 ''kp''
     = Inr (AuthAccept [(''m1:0'', \<lparr>u_address = ''m1addr'', u_value = 5000000\<rparr>)]
              ''pub:key:m1addr'' ''m1cj'' ''m1change'' ''sig:kp:key:m1addr'') \<and>
   (\<exists>res0. query_utxo_set ex_env [''tk:1''] True = [Some res0] \<and>
           taker_utxo_age ex_env \<le> r_confirms res0 \<and>
           (2000000 * taker_utxo_amtpercent ex_env) div 100 \<le> r_value res0) \<and>
   on_auth_received ex_env ''J5taker'' ex_offer ''P03'' ''rev1'' 100000000 ''kp''
     = Inr AuthReject"
proof -
  let ?cr = "\<lparr>cr_utxo = ''tk:1'', cr_P = ''02bb'', cr_P2 = ''03'', cr_sig = ''04'',
              cr_e = ''05''\<rparr>"
  have d: "deserialize_revelation ex_env ''rev1'' = Some ?cr"
    by (simp add: ex_env_def)
  have v: "verify_podle ex_env (cr_P ?cr) (cr_P2 ?cr) (cr_sig ?cr) (cr_e ?cr) ''P03''
             (taker_utxo_retries ex_env)"
    by (simp add: ex_env_def)
  have lo: "0 \<le> 2000000 * taker_utxo_amtpercent ex_env"
    and hi: "2000000 * taker_utxo_amtpercent ex_env < 2 ^ 53"
    and lo': "0 \<le> 100000000 * taker_utxo_amtpercent ex_env"
    and hi': "100000000 * taker_utxo_amtpercent ex_env < 2 ^ 53"
    by (simp_all add: ex_env_def)
  have run: "on_auth_received ex_env ''J5taker'' ex_offer ''P03'' ''rev1'' 2000000 ''kp''
     = Inr (AuthAccept [(''m1:0'', \<lparr>u_address = ''m1addr'', u_value = 5000000\<rparr>)]
              ''pub:key:m1addr'' ''m1cj'' ''m1change'' ''sig:kp:key:m1addr'')"
    by code_simp
  have small: "\<forall>res0. query_utxo_set ex_env [cr_utxo ?cr] True = [Some res0] \<longrightarrow>
                 r_confirms res0 < taker_utxo_age ex_env \<or>
                 r_value res0 < (100000000 * taker_utxo_amtpercent ex_env) div 100"
    by (auto simp: ex_env_def ex_chain_def)
  from on_auth_received_utxo_checks [OF d v lo hi, of "''J5taker''" ex_offer "''kp''"] run
  have accepted: "\<exists>res0. query_utxo_set ex_env [''tk:1''] True = [Some res0] \<and>
           taker_utxo_age ex_env \<le> r_confirms res0 \<and>
           (2000000 * taker_utxo_amtpercent ex_env) div 100 \<le> r_value res0"
    by simp
  from on_auth_received_utxo_checks [OF d v lo' hi', of "''J5taker''" ex_offer "''kp''"] small
  have rejected: "on_auth_received ex_env ''J5taker'' ex_offer ''P03'' ''rev1'' 100000000 ''kp''
                    = Inr AuthReject"
    by blast
  from run accepted rejected show ?thesis by blast
qed

text \<open>
  Without the bound the claim fails: the threshold is computed in double precision,
  \<open>int(amount * 20 / 100.0)\<close>. For \<open>amount = 1801439850948205\<close> it is
  \<open>360287970189640\<close>, one less than \<open>floor (amount * 20 / 100)\<close>, and a utxo of that
  value is accepted.
\<close>

theorem on_auth_received_float_counterexample:
  "on_auth_received ex_env ''J5taker'' ex_offer ''P03'' ''rev0'' 1801439850948205 ''kp''
     = Inr (AuthAccept [(''m1:0'', \<lparr>u_address = ''m1addr'', u_value = 5000000\<rparr>)]
              ''pub:key:m1addr'' ''m1cj'' ''m1change'' ''sig:kp:key:m1addr'') \<and>
   deserialize_revelation ex_env ''rev0''
     = Some \<lparr>cr_utxo = ''tk:0'', cr_P = ''02aa'', cr_P2 = ''03'', cr_sig = ''04'', cr_e = ''05''\<rparr> \<and>
   verify_podle ex_env ''02aa'' ''03'' ''04'' ''05'' ''P03'' (taker_utxo_retries ex_env) \<and>
   map (map_option r_value) (query_utxo_set ex_env [''tk:0''] True) = [Some 360287970189640] \<and>
   (360287970189640 :: int) < (1801439850948205 * taker_utxo_amtpercent ex_env) div 100"
  by code_simp


section \<open>Properties of the taker's entry points\<close>

text \<open>
  Claim C8, amended. When the abort flag is set, each of the three entry points returns
  at once and leaves the state of the taker as it is, with its own failure value:
  \<open>initialize\<close> returns \<open>(False,)\<close>, \<open>receive_utxos\<close> returns
  \<open>(False, "User aborted")\<close> and \<open>on_sig\<close> returns \<open>False\<close>.
\<close>

theorem aborted_short_circuits:
  assumes "aborted t"
  shows "initialize e h t orderbook_arg = (t, Inr RetFalse1) \<and>
         receive_utxos e t ioauth_data = (t, Inr (RetFalseMsg ''User aborted'')) \<and>
         on_sig e h t nick sigb64 = (t, Inr RetBoolFalse)"
  using assms by (simp add: initialize_def receive_utxos_def on_sig_def)

theorem aborted_short_circuits_witness:
  "aborted (ex_taker\<lparr>aborted := True\<rparr>) \<and>
   initialize ex_env ex_hooks (ex_taker\<lparr>aborted := True\<rparr>) [ex_offer]
     = (ex_taker\<lparr>aborted := True\<rparr>, Inr RetFalse1) \<and>
   receive_utxos ex_env (ex_taker\<lparr>aborted := True\<rparr>) [(''J5maker1'', ex_ioauth1)]
     = (ex_taker\<lparr>aborted := True\<rparr>, Inr (RetFalseMsg ''User aborted'')) \<and>
   on_sig ex_env ex_hooks (ex_taker\<lparr>aborted := True\<rparr>) ''J5maker1'' ''n1/02c1/0014c1|02c1|code''
     = (ex_taker\<lparr>aborted := True\<rparr>, Inr RetBoolFalse)"
proof -
  have a: "aborted (ex_taker\<lparr>aborted := True\<rparr>)" by simp
  from aborted_short_circuits [OF a] a show ?thesis by blast
qed

text \<open>
  The claim as stated gives all three entry points the result
  \<open>(False, "User aborted")\<close>; \<open>initialize\<close> and \<open>on_sig\<close> return other values.
\<close>

theorem aborted_return_counterexample:
  "aborted (ex_taker\<lparr>aborted := True\<rparr>) \<and>
   snd (initialize ex_env ex_hooks (ex_taker\<lparr>aborted := True\<rparr>) [ex_offer]) = Inr RetFalse1 \<and>
   snd (initialize ex_env ex_hooks (ex_taker\<lparr>aborted := True\<rparr>) [ex_offer])
     \<noteq> Inr (RetFalseMsg ''User aborted'') \<and>
   snd (on_sig ex_env ex_hooks (ex_taker\<lparr>aborted := True\<rparr>) ''J5maker1''
          ''n1/02c1/0014c1|02c1|code'') = Inr RetBoolFalse \<and>
   snd (on_sig ex_env ex_hooks (ex_taker\<lparr>aborted := True\<rparr>) ''J5maker1''
          ''n1/02c1/0014c1|02c1|code'') \<noteq> Inr (RetFalseMsg ''User aborted'')"
  by (simp add: initialize_def on_sig_def)

text \<open>
  For a fractional amount the balance of the mixdepth is read from the wallet on every
  call: the test of line 172 is true for every schedule entry.
\<close>

lemma set_cjamount_requeries:
  assumes "s_cjamount si = AmtFloat f"
    and "set_cjamount e si t = (t1, Inr u)"
  shows "mixdepthbal t1 = map_of (get_balance_by_mixdepth e) (mixdepth t) \<and>
         mixdepthbal t1 \<noteq> None"
  using assms
  by (auto simp: set_cjamount_def int_ne_entry_def add_event_def
           split: if_splits option.splits sum.splits)

text \<open>
  Claim C7 at a failing input. The schedule has two fractional entries of one half in
  mixdepth 0; the balance captured at the first entry was 10000000 and the wallet now
  holds 4000000. The claim gives the second coinjoin the amount 5000000, half of the
  captured balance; the code reads the balance again and sets 2000000.
\<close>

theorem initialize_requeries_balance:
  "map s_mixdepth (schedule ex_taker_tumble) = [0, 0] \<and>
   schedule_index ex_taker_tumble = 0 \<and>
   mixdepthbal ex_taker_tumble = Some 10000000 \<and>
   map_of (get_balance_by_mixdepth ex_env) 0 = Some 4000000 \<and>
   mixdepthbal (fst (initialize ex_env ex_hooks ex_taker_tumble [ex_offer])) = Some 4000000 \<and>
   cjamount (fst (initialize ex_env ex_hooks ex_taker_tumble [ex_offer])) = 2000000"
  by code_simp

section \<open>Properties of receive_utxos\<close>

text \<open>
  Claim C10 at a failing input. A counterparty that fails both the signature check and
  the address check is appended to \<open>rejected_counterparties\<close> twice, and the second
  \<open>del ioauth_data[rc]\<close> raises \<open>KeyError\<close>: \<open>receive_utxos\<close> returns no result.
\<close>

theorem receive_utxos_double_rejection:
  "\<not> auth_counterparty ex_env (io_btc_sig ex_ioauth_bad) (io_auth_pub ex_ioauth_bad)
       (io_maker_pk ex_ioauth_bad) \<and>
   \<not> validate_address ex_env (io_cj_addr ex_ioauth_bad) \<and>
   snd (auth_loop ex_env [(''J5maker1'', ex_ioauth1), (''J5maker2'', ex_ioauth_bad)]
          (ex_taker, [])) = [''J5maker2'', ''J5maker2''] \<and>
   snd (receive_utxos ex_env ex_taker
          [(''J5maker1'', ex_ioauth1), (''J5maker2'', ex_ioauth_bad)]) = Inl KeyError"
  by code_simp

text \<open>
  Claim C6 at a failing input. Maker 2's change of 2100 is below the dust threshold.
  The maker is not accepted, gets no output and is not added to \<open>ignored_makers\<close>,
  and the transaction is built with maker 1 alone; but \<open>self.utxos\<close> keeps maker 2's
  entry, so its input \<open>m2:0\<close> is an input of the transaction that is sent out.
\<close>

theorem receive_utxos_keeps_dropped_inputs:
  "snd (receive_utxos ex_env ex_taker
          [(''J5maker1'', ex_ioauth1), (''J5maker2'', ex_ioauth2)])
     = Inr (RetUtxos [''J5maker1''] ''m2:0;m1:1;m1:0;tk:1;'') \<and>
   ''J5maker2'' \<notin> ignored_makers (fst (receive_utxos ex_env ex_taker
          [(''J5maker1'', ex_ioauth1), (''J5maker2'', ex_ioauth2)])) \<and>
   utxo_tx (fst (receive_utxos ex_env ex_taker
          [(''J5maker1'', ex_ioauth1), (''J5maker2'', ex_ioauth2)]))
     = [''m2:0'', ''m1:1'', ''m1:0'', ''tk:1''] \<and>
   input_outpoints (fst (receive_utxos ex_env ex_taker
          [(''J5maker1'', ex_ioauth1), (''J5maker2'', ex_ioauth2)]))
     = [''m2:0'', ''m1:1'', ''m1:0'', ''tk:1''] \<and>
   map o_address (outputs (fst (receive_utxos ex_env ex_taker
          [(''J5maker1'', ex_ioauth1), (''J5maker2'', ex_ioauth2)])))
     = [''tkcj'', ''tkchange'', ''m1cj'', ''m1change'']"
  by code_simp

section \<open>Properties of on_sig\<close>

text \<open>
  Claim C9 at a failing input. Input 0 is a native segwit output of maker 1. Its first
  signature is stored as the witness and the script stays empty, so the input still
  counts as unsigned; a second signature message of the same maker replaces the
  witness of the input that was already signed.
\<close>

theorem on_sig_overwrites_native_segwit_input:
  "input_witness ex_taker_signing 0 = None \<and>
   input_witness
     (fst (on_sig ex_env ex_hooks ex_taker_signing ''J5maker1'' ''n1/02c1/0014c1|02c1|code'')) 0
     = Some [''n1/02c1/0014c1'', ''02c1''] \<and>
   input_witness
     (fst (on_sig ex_env ex_hooks
             (fst (on_sig ex_env ex_hooks ex_taker_signing ''J5maker1''
                     ''n1/02c1/0014c1|02c1|code''))
             ''J5maker1'' ''n2/02c1/0014c1|02c1|code'')) 0
     = Some [''n2/02c1/0014c1'', ''02c1'']"
  by code_simp

end
